theory Spec2Isabelle
  imports Main "HOL-Library.Word" "HOL-Library.Sublist"
begin

section \<open>JavaScript strings\<close>

text \<open>
  A JavaScript string is a sequence of 16-bit code units. \<open>js\<close> writes an ASCII
  literal of the source as such a sequence.
\<close>

type_synonym code_unit = "16 word"
type_synonym jsstring = "code_unit list"

definition js :: "string \<Rightarrow> jsstring" where
  "js s = map of_char s"

text \<open>
  \<^verbatim>\<open>String.prototype.trim\<close> removes leading and trailing white space and line
  terminators: TAB, LF, VT, FF, CR, SPACE, NBSP, the other space separators of the
  Basic Multilingual Plane, LS, PS and the byte order mark.
\<close>

definition isWhiteSpace :: "code_unit \<Rightarrow> bool" where
  "isWhiteSpace c = (c \<in> set [0x0009, 0x000A, 0x000B, 0x000C, 0x000D, 0x0020, 0x00A0,
     0x1680, 0x2000, 0x2001, 0x2002, 0x2003, 0x2004, 0x2005, 0x2006, 0x2007, 0x2008,
     0x2009, 0x200A, 0x2028, 0x2029, 0x202F, 0x205F, 0x3000, 0xFEFF])"

definition trim :: "jsstring \<Rightarrow> jsstring" where
  "trim s = rev (dropWhile isWhiteSpace (rev (dropWhile isWhiteSpace s)))"

text \<open>
  \<^verbatim>\<open>Date.now()\<close> is an integral number of milliseconds, far below \<open>10^21\<close> in
  absolute value, so a template literal prints it in plain decimal, with a minus sign
  before the epoch.
\<close>

fun digits :: "nat \<Rightarrow> jsstring" where
  "digits n = (if n < 10 then [of_nat (48 + n)]
               else digits (n div 10) @ [of_nat (48 + n mod 10)])"

declare digits.simps [simp del]


definition numberToString :: "int \<Rightarrow> jsstring" where
  "numberToString n = (if n < 0 then 0x2D # digits (nat (- n)) else digits (nat n))"

section \<open>Data of \<^verbatim>\<open>App.tsx\<close>\<close>

datatype Role = USER | MODEL

record Message =
  id_msg :: jsstring
  role :: Role
  content :: jsstring

text \<open>
  The chat session of the SDK is opaque to the application. The model keeps the
  parameters \<^verbatim>\<open>startChat\<close> was given and, as a trace, the arguments of the
  \<^verbatim>\<open>sendMessage\<close> calls made on the session, oldest first.
\<close>

record ChatSession =
  model :: jsstring
  history :: "jsstring list"
  maxOutputTokens :: nat
  sendMessage_calls :: "jsstring list"

text \<open>The component state: three \<^verbatim>\<open>useState\<close> cells and the session ref.\<close>

record App =
  messages :: "Message list"
  isLoading :: bool
  error :: "jsstring option"
  chatSessionRef :: "ChatSession option"

definition initial :: App where
  "initial = \<lparr>messages = [], isLoading = True, error = None, chatSessionRef = None\<rparr>"

text \<open>
  A thrown value is any JavaScript value. The handlers only ask whether it is an
  \<^verbatim>\<open>Error\<close> instance, and then read its \<^verbatim>\<open>message\<close>.
\<close>

datatype thrown = ErrorInstance jsstring | ThrownString jsstring | ThrownOther

text \<open>
  What the environment decides: whether the three SDK calls that build the session
  return, and how the awaited \<^verbatim>\<open>sendMessage\<close> ends (\<open>Resolves t\<close>: the promise
  resolves and \<^verbatim>\<open>response.text()\<close> returns \<open>t\<close>; \<open>Rejects e\<close>: something in lines
  100 to 102 throws \<open>e\<close>).
\<close>

datatype construction = SessionStarted | ConstructionThrows thrown

datatype exchange = Resolves jsstring | Rejects thrown

section \<open>\<^verbatim>\<open>initializeChat\<close>\<close>

definition truthy :: "jsstring option \<Rightarrow> bool" where
  "truthy k = (case k of None \<Rightarrow> False | Some s \<Rightarrow> s \<noteq> [])"

definition greeting :: Message where
  "greeting = \<lparr>id_msg = js ''initial-message'', role = MODEL,
     content = js ''Hello! I'm an assistant powered by Gemini. How can I help you today?''\<rparr>"

definition missing_key_text :: jsstring where
  "missing_key_text = js ''API Key is missing. Make sure you have set the VITE_GEMINI_API_KEY environment variable in your .env file or deployment service (like Netlify).''"

definition init_errorMessage :: "thrown \<Rightarrow> jsstring" where
  "init_errorMessage e = (case e of ErrorInstance m \<Rightarrow> m
     | _ \<Rightarrow> js ''An unknown error occurred during initialization.'')"

definition initializeChat :: "jsstring option \<Rightarrow> construction \<Rightarrow> App \<Rightarrow> App" where
  "initializeChat API_KEY c st =
     (let st1 = st\<lparr>isLoading := True, error := None\<rparr> in
      if \<not> truthy API_KEY
      then st1\<lparr>error := Some missing_key_text, isLoading := False\<rparr>
      else case c of
        SessionStarted \<Rightarrow>
          st1\<lparr>chatSessionRef := Some \<lparr>model = js ''gemini-1.5-flash'', history = [],
                  maxOutputTokens = 1000, sendMessage_calls = []\<rparr>,
              messages := [greeting],
              isLoading := False\<rparr>
      | ConstructionThrows e \<Rightarrow>
          st1\<lparr>error := Some (js ''Failed to initialize the chatbot. Please check your API key and setup.''
                  @ [0x0A, 0x0A] @ js ''Error: '' @ init_errorMessage e),
              isLoading := False\<rparr>)"

section \<open>\<^verbatim>\<open>handleSendMessage\<close>\<close>

text \<open>Lines 93 to 97: busy flag, banner reset, the user's message.\<close>

definition echo_user :: "jsstring \<Rightarrow> int \<Rightarrow> App \<Rightarrow> App" where
  "echo_user userInput now st =
     st\<lparr>isLoading := True, error := None,
        messages := messages st @
          [\<lparr>id_msg = js ''user-'' @ numberToString now, role = USER, content = userInput\<rparr>]\<rparr>"

text \<open>Line 100, the call itself: one more \<^verbatim>\<open>sendMessage\<close> on the session.\<close>

definition issue_exchange :: "jsstring \<Rightarrow> App \<Rightarrow> App" where
  "issue_exchange userInput st =
     st\<lparr>chatSessionRef := map_option
        (\<lambda>s. s\<lparr>sendMessage_calls := sendMessage_calls s @ [userInput]\<rparr>) (chatSessionRef st)\<rparr>"

text \<open>
  A handler is made by a render of the component and keeps, as a constant, the value
  of \<open>isLoading\<close> that this render read from the state (line 23): \<open>captured\<close>. Line 91
  tests this constant and the session ref, which is read when the call is made. All
  that follows acts on the state \<open>st\<close> at the time of the call and after: the setters,
  the functional updates of the message list, the ref.

  The synchronous part of a call: \<open>None\<close> when line 91 returns, otherwise the state
  in which the handler is suspended at \<^verbatim>\<open>await\<close>.
\<close>

definition handleSendMessage_call :: "bool \<Rightarrow> jsstring \<Rightarrow> int \<Rightarrow> App \<Rightarrow> App option" where
  "handleSendMessage_call captured userInput now st =
     (if captured \<or> chatSessionRef st = None then None
      else Some (issue_exchange userInput (echo_user userInput now st)))"

text \<open>Lines 100 to 106: what the \<^verbatim>\<open>try\<close> block hands on, a text or a thrown value.\<close>

definition try_exchange :: "exchange \<Rightarrow> thrown + jsstring" where
  "try_exchange out = (case out of
       Resolves responseContent \<Rightarrow>
         if responseContent = []
         then Inl (ErrorInstance (js ''Received an empty response from the API.''))
         else Inr responseContent
     | Rejects e \<Rightarrow> Inl e)"

definition send_errorMessage :: "thrown \<Rightarrow> jsstring" where
  "send_errorMessage e = (case e of ErrorInstance m \<Rightarrow> m
     | _ \<Rightarrow> js ''An unknown error occurred.'')"

definition apology :: jsstring where
  "apology = js ''Sorry, I ran into a problem. Please try again.''"

definition error_content :: "jsstring \<Rightarrow> jsstring" where
  "error_content errorMessage =
     apology @ [0x0A, 0x0A] @ js ''*Error: '' @ errorMessage @ js ''*''"

text \<open>Lines 101 to 129: the continuation after \<^verbatim>\<open>await\<close>.\<close>

definition resume :: "exchange \<Rightarrow> int \<Rightarrow> App \<Rightarrow> App" where
  "resume out now st = (case try_exchange out of
       Inr responseContent \<Rightarrow>
         st\<lparr>messages := messages st @
              [\<lparr>id_msg = js ''model-'' @ numberToString now, role = MODEL,
                content = trim responseContent\<rparr>],
            isLoading := False\<rparr>
     | Inl e \<Rightarrow>
         st\<lparr>messages := messages st @
              [\<lparr>id_msg = js ''error-'' @ numberToString now, role = MODEL,
                content = error_content (send_errorMessage e)\<rparr>],
            error := Some (js ''API Error: '' @ send_errorMessage e),
            isLoading := False\<rparr>)"

text \<open>
  A whole call with nothing else happening before its reply is handled: the flag the
  handler captured, the text, the clock at line 96, the end of the exchange and the
  clock at line 109 or 121.
\<close>

definition handleSendMessage ::
    "bool \<Rightarrow> jsstring \<Rightarrow> int \<Rightarrow> exchange \<Rightarrow> int \<Rightarrow> App \<Rightarrow> App" where
  "handleSendMessage captured userInput t1 out t2 st =
     (case handleSendMessage_call captured userInput t1 st of
        None \<Rightarrow> st
      | Some st' \<Rightarrow> resume out t2 st')"

text \<open>
  Calls made one after the other, each through the handler of the render that shows
  the state the call finds: that handler captured \<open>isLoading st\<close>.
\<close>

type_synonym send = "jsstring \<times> int \<times> exchange \<times> int"

fun run :: "send list \<Rightarrow> App \<Rightarrow> App" where
  "run [] st = st"
| "run ((userInput, t1, out, t2) # rest) st =
     run rest (handleSendMessage (isLoading st) userInput t1 out t2 st)"

section \<open>\<^verbatim>\<open>ChatInput\<close>\<close>

text \<open>
  \<^verbatim>\<open>handleSubmit\<close> of the input form that \<^verbatim>\<open>App\<close> renders (lines 212 to 218):
  the new content of the text field, and the application state when it returns.
  \<open>captured\<close> is the flag of the handler that the form was given as
  \<^verbatim>\<open>onSendMessage\<close>.
\<close>

definition handleSubmit :: "bool \<Rightarrow> jsstring \<Rightarrow> int \<Rightarrow> App \<Rightarrow> jsstring \<times> App" where
  "handleSubmit captured input now st =
     (if trim input \<noteq> []
      then ([], case handleSendMessage_call captured (trim input) now st of
                  None \<Rightarrow> st | Some st' \<Rightarrow> st')
      else (input, st))"

section \<open>Runs of the application\<close>

text \<open>An example state: started with a credential, session built, nothing sent yet.\<close>

definition ready :: App where
  "ready = initializeChat (Some (js ''key'')) SessionStarted initial"






section \<open>Printed numbers\<close>






lemma numberToString_1000: "numberToString 1000 = js ''1000''"
  by (simp add: numberToString_def digits.simps js_def)

lemma numberToString_1001: "numberToString 1001 = js ''1001''"
  by (simp add: numberToString_def digits.simps js_def)


section \<open>Blank strings\<close>

lemma trim_empty_iff: "trim s = [] \<longleftrightarrow> (\<forall>c\<in>set s. isWhiteSpace c)"
proof
  assume "trim s = []"
  then have all: "\<forall>c\<in>set (dropWhile isWhiteSpace s). isWhiteSpace c"
    by (simp add: trim_def dropWhile_eq_Nil_conv)
  have "dropWhile isWhiteSpace s = []"
  proof (rule ccontr)
    assume ne: "dropWhile isWhiteSpace s \<noteq> []"
    then have "\<not> isWhiteSpace (hd (dropWhile isWhiteSpace s))"
      by (rule hd_dropWhile)
    moreover from ne have "hd (dropWhile isWhiteSpace s) \<in> set (dropWhile isWhiteSpace s)"
      by (rule hd_in_set)
    ultimately show False using all by blast
  qed
  then show "\<forall>c\<in>set s. isWhiteSpace c"
    by (simp add: dropWhile_eq_Nil_conv)
next
  assume "\<forall>c\<in>set s. isWhiteSpace c"
  then have "dropWhile isWhiteSpace s = []"
    by (simp add: dropWhile_eq_Nil_conv)
  then show "trim s = []"
    by (simp only: trim_def rev.simps dropWhile.simps)
qed

section \<open>Steps of \<^verbatim>\<open>handleSendMessage\<close>\<close>

lemma send_without_session:
  "chatSessionRef st = None \<Longrightarrow> handleSendMessage captured userInput t1 out t2 st = st"
  by (simp add: handleSendMessage_def handleSendMessage_call_def)

lemma run_without_session: "chatSessionRef st = None \<Longrightarrow> run sends st = st"
  by (induction sends st rule: run.induct) (simp_all add: send_without_session)

lemma ready_state:
  "ready = \<lparr>messages = [greeting], isLoading = False, error = None,
     chatSessionRef = Some \<lparr>model = js ''gemini-1.5-flash'', history = [],
       maxOutputTokens = 1000, sendMessage_calls = []\<rparr>\<rparr>"
  by (simp add: ready_def initializeChat_def initial_def truthy_def js_def)

lemma ready_accepts: "\<not> isLoading ready" "chatSessionRef ready \<noteq> None"
  by (simp_all add: ready_state)

lemma accepted_call:
  "\<not> captured \<Longrightarrow> chatSessionRef st \<noteq> None \<Longrightarrow>
   handleSendMessage_call captured userInput now st =
     Some (issue_exchange userInput (echo_user userInput now st))"
  by (simp add: handleSendMessage_call_def)

lemma accepted_send:
  "\<not> captured \<Longrightarrow> chatSessionRef st \<noteq> None \<Longrightarrow>
   handleSendMessage captured userInput t1 out t2 st =
     resume out t2 (issue_exchange userInput (echo_user userInput t1 st))"
  by (auto simp: handleSendMessage_def handleSendMessage_call_def)

lemma messages_awaiting:
  "messages (issue_exchange userInput (echo_user userInput now st)) =
     messages st @
       [\<lparr>id_msg = js ''user-'' @ numberToString now, role = USER, content = userInput\<rparr>]"
  by (simp add: issue_exchange_def echo_user_def)

lemma resume_failure:
  "try_exchange out = Inl e \<Longrightarrow>
   resume out now st =
     st\<lparr>messages := messages st @
          [\<lparr>id_msg = js ''error-'' @ numberToString now, role = MODEL,
            content = error_content (send_errorMessage e)\<rparr>],
        error := Some (js ''API Error: '' @ send_errorMessage e),
        isLoading := False\<rparr>"
  by (simp add: resume_def)

lemma resume_success:
  "try_exchange out = Inr responseContent \<Longrightarrow>
   resume out now st =
     st\<lparr>messages := messages st @
          [\<lparr>id_msg = js ''model-'' @ numberToString now, role = MODEL,
            content = trim responseContent\<rparr>],
        isLoading := False\<rparr>"
  by (simp add: resume_def)




section \<open>Message ids\<close>











section \<open>The claims\<close>

text \<open>
  C1, amended. A handler made by a render in which the busy flag \<open>isLoading\<close> is set
  returns at its first line, in whatever state it is called: the whole state is as
  before, so the message list is unchanged and the trace of \<^verbatim>\<open>sendMessage\<close> calls on
  the session has no new entry, whatever the text, the clock and the remote side
  would have been. In particular this holds for the handler of the render that shows
  a busy state.
\<close>

theorem busy_handler_is_noop:
  "captured \<Longrightarrow>
     handleSendMessage_call captured userInput t1 st = None \<and>
     handleSendMessage captured userInput t1 out t2 st = st"
  by (simp add: handleSendMessage_def handleSendMessage_call_def)

text \<open>
  C1, amended, at a concrete input: a first call, sent from \<open>ready\<close>, is awaiting its
  reply; a second call is made through the handler of the render that shows this
  busy state.
\<close>

theorem busy_handler_is_noop_witness:
  "isLoading (issue_exchange (js ''a'') (echo_user (js ''a'') 1000 ready)) \<and>
   handleSendMessage (isLoading (issue_exchange (js ''a'') (echo_user (js ''a'') 1000 ready)))
       (js ''b'') 1001 (Resolves (js ''x'')) 1002
       (issue_exchange (js ''a'') (echo_user (js ''a'') 1000 ready))
     = issue_exchange (js ''a'') (echo_user (js ''a'') 1000 ready)"
proof -
  have busy: "isLoading (issue_exchange (js ''a'') (echo_user (js ''a'') 1000 ready))"
    by (simp add: issue_exchange_def echo_user_def)
  from busy_handler_is_noop [OF busy] busy show ?thesis
    by simp
qed

text \<open>
  C1 as stated fails, because line 91 tests the flag the handler captured and not the
  state: the handler of the render that shows \<open>ready\<close> captured a clear flag. Called
  with \<^verbatim>\<open>"a"\<close> it leaves the state busy; called again with \<^verbatim>\<open>"b"\<close> before a new
  render has replaced it, it is accepted in that busy state, appends a second USER
  message and makes a second \<^verbatim>\<open>sendMessage\<close> call.
\<close>

theorem stale_handler_is_accepted:
  "handleSendMessage_call (isLoading ready) (js ''a'') 1000 ready =
     Some (issue_exchange (js ''a'') (echo_user (js ''a'') 1000 ready)) \<and>
   isLoading (issue_exchange (js ''a'') (echo_user (js ''a'') 1000 ready)) \<and>
   map_option (\<lambda>st. map content (messages st))
       (handleSendMessage_call (isLoading ready) (js ''b'') 1001
          (issue_exchange (js ''a'') (echo_user (js ''a'') 1000 ready)))
     = Some [content greeting, js ''a'', js ''b''] \<and>
   map_option (\<lambda>st. map_option sendMessage_calls (chatSessionRef st))
       (handleSendMessage_call (isLoading ready) (js ''b'') 1001
          (issue_exchange (js ''a'') (echo_user (js ''a'') 1000 ready)))
     = Some (Some [js ''a'', js ''b''])"
proof -
  have s: "chatSessionRef (issue_exchange (js ''a'') (echo_user (js ''a'') 1000 ready)) \<noteq> None"
    by (simp add: issue_exchange_def echo_user_def ready_state)
  show ?thesis
    unfolding accepted_call [OF ready_accepts] accepted_call [OF ready_accepts(1) s]
    by (simp add: issue_exchange_def echo_user_def ready_state)
qed

text \<open>
  C2, amended. \<open>handleSendMessage\<close> never looks at its text; the blank check is in the
  input form. For an input that is empty or all white space, \<open>handleSubmit\<close> does not
  call \<open>handleSendMessage\<close>: the application state and the text field stay as they are,
  so the message list is unchanged and no \<^verbatim>\<open>sendMessage\<close> call is made.
\<close>

theorem blank_submit_is_noop:
  "\<forall>c\<in>set input. isWhiteSpace c \<Longrightarrow> handleSubmit captured input now st = (input, st)"
  by (simp add: handleSubmit_def trim_empty_iff)

text \<open>C2, amended, at the inputs \<^verbatim>\<open>"   "\<close> and \<^verbatim>\<open>""\<close>.\<close>

theorem blank_submit_is_noop_witness:
  "list_all isWhiteSpace (js ''   '') \<and>
   handleSubmit (isLoading ready) (js ''   '') 1000 ready = (js ''   '', ready) \<and>
   handleSubmit (isLoading ready) (js '''') 1000 ready = (js '''', ready)"
proof -
  have blank: "\<forall>c\<in>set (js ''   ''). isWhiteSpace c"
    by (simp add: js_def isWhiteSpace_def)
  have empty: "\<forall>c\<in>set (js ''''). isWhiteSpace c"
    by (simp add: js_def)
  from blank_submit_is_noop [OF blank, of "isLoading ready" 1000 ready]
    blank_submit_is_noop [OF empty, of "isLoading ready" 1000 ready] blank
  show ?thesis
    by (simp add: list_all_iff)
qed

text \<open>
  C2 as stated fails on \<open>handleSendMessage\<close> itself: called in the state \<open>ready\<close> with
  the text \<^verbatim>\<open>"   "\<close>, or with \<^verbatim>\<open>""\<close>, it appends the user's message and the reply
  (one message before, three after) and passes the blank text to \<^verbatim>\<open>sendMessage\<close>.
\<close>

theorem blank_send_is_accepted:
  "length (messages ready) = 1 \<and>
   length (messages (handleSendMessage (isLoading ready) (js ''   '') 1000 (Resolves (js ''Hi'')) 1001 ready)) = 3 \<and>
   map_option sendMessage_calls (chatSessionRef ready) = Some [] \<and>
   map_option sendMessage_calls
       (chatSessionRef (handleSendMessage (isLoading ready) (js ''   '') 1000 (Resolves (js ''Hi'')) 1001 ready))
     = Some [js ''   ''] \<and>
   length (messages (handleSendMessage (isLoading ready) (js '''') 1000 (Resolves (js ''Hi'')) 1001 ready)) = 3 \<and>
   map_option sendMessage_calls
       (chatSessionRef (handleSendMessage (isLoading ready) (js '''') 1000 (Resolves (js ''Hi'')) 1001 ready))
     = Some [js '''']"
proof -
  have t: "try_exchange (Resolves (js ''Hi'')) = Inr (js ''Hi'')"
    by (simp add: try_exchange_def js_def)
  show ?thesis
    unfolding accepted_send [OF ready_accepts] resume_success [OF t]
    by (simp add: issue_exchange_def echo_user_def ready_state)
qed

text \<open>
  C3. Started without a credential, \<open>initializeChat\<close> leaves the message list empty (no
  greeting), sets the banner error to the missing-key text, clears the busy flag and
  builds no session. In that state every call of \<open>handleSendMessage\<close>, and every
  sequence of calls, leaves the state as it is.
\<close>

theorem missing_credential_is_fatal:
  "initializeChat None c initial =
     \<lparr>messages = [], isLoading = False, error = Some missing_key_text,
      chatSessionRef = None\<rparr> \<and>
   handleSendMessage captured userInput t1 out t2 (initializeChat None c initial)
     = initializeChat None c initial \<and>
   run sends (initializeChat None c initial) = initializeChat None c initial"
proof -
  have failed: "initializeChat None c initial =
      \<lparr>messages = [], isLoading = False, error = Some missing_key_text,
       chatSessionRef = None\<rparr>"
    by (simp add: initializeChat_def initial_def truthy_def)
  then have "chatSessionRef (initializeChat None c initial) = None"
    by simp
  with failed show ?thesis
    by (simp add: send_without_session run_without_session)
qed

text \<open>
  C4. With a credential that is present and not empty, and the session built without
  an exception, \<open>initializeChat\<close> ends with the busy flag cleared, no banner error, a
  session in place (so the state is ready for a send), and a message list that is
  exactly the one greeting of the assistant.
\<close>

theorem successful_initialization:
  "truthy API_KEY \<Longrightarrow>
   initializeChat API_KEY SessionStarted st =
     st\<lparr>messages := [\<lparr>id_msg = js ''initial-message'', role = MODEL,
           content = js ''Hello! I'm an assistant powered by Gemini. How can I help you today?''\<rparr>],
        isLoading := False, error := None,
        chatSessionRef := Some \<lparr>model = js ''gemini-1.5-flash'', history = [],
          maxOutputTokens = 1000, sendMessage_calls = []\<rparr>\<rparr>"
  by (simp add: initializeChat_def greeting_def)

text \<open>C4, at a concrete input: the key \<^verbatim>\<open>"key"\<close>, from the initial state.\<close>

theorem successful_initialization_witness:
  "truthy (Some (js ''key'')) \<and>
   messages (initializeChat (Some (js ''key'')) SessionStarted initial) =
     [\<lparr>id_msg = js ''initial-message'', role = MODEL,
       content = js ''Hello! I'm an assistant powered by Gemini. How can I help you today?''\<rparr>] \<and>
   \<not> isLoading (initializeChat (Some (js ''key'')) SessionStarted initial) \<and>
   chatSessionRef (initializeChat (Some (js ''key'')) SessionStarted initial) \<noteq> None"
proof -
  have key: "truthy (Some (js ''key''))"
    by (simp add: truthy_def js_def)
  from successful_initialization [OF key, of initial] key show ?thesis
    by simp
qed

text \<open>
  C5, amended. When a call of \<open>handleSendMessage\<close> is accepted (its handler captured
  a clear busy flag, and the session is in place), lines 93 to 97 append a USER message whose text is the text passed in,
  unchanged, and set the busy flag, and at that point the session is untouched: the
  \<^verbatim>\<open>sendMessage\<close> call comes after, and the reply is handled after that. The text is
  the trimmed input only because the input form trims what it passes on: for an input
  that is not blank, \<open>handleSubmit\<close> empties the text field and makes the call with
  \<open>trim input\<close>.
\<close>

theorem user_turn_echoed_before_exchange:
  "\<not> captured \<Longrightarrow> chatSessionRef st \<noteq> None \<Longrightarrow>
   messages (echo_user userInput now st) =
     messages st @
       [\<lparr>id_msg = js ''user-'' @ numberToString now, role = USER, content = userInput\<rparr>] \<and>
   isLoading (echo_user userInput now st) \<and>
   chatSessionRef (echo_user userInput now st) = chatSessionRef st \<and>
   handleSendMessage_call captured userInput now st =
     Some (issue_exchange userInput (echo_user userInput now st)) \<and>
   map_option sendMessage_calls
       (chatSessionRef (issue_exchange userInput (echo_user userInput now st)))
     = map_option (\<lambda>s. sendMessage_calls s @ [userInput]) (chatSessionRef st) \<and>
   handleSendMessage captured userInput now out t2 st =
     resume out t2 (issue_exchange userInput (echo_user userInput now st)) \<and>
   (trim input \<noteq> [] \<longrightarrow>
      handleSubmit captured input now st =
        ([], issue_exchange (trim input) (echo_user (trim input) now st)))"
proof -
  assume a: "\<not> captured" "chatSessionRef st \<noteq> None"
  have "map_option sendMessage_calls
          (chatSessionRef (issue_exchange userInput (echo_user userInput now st)))
     = map_option (\<lambda>s. sendMessage_calls s @ [userInput]) (chatSessionRef st)"
    by (simp add: issue_exchange_def echo_user_def option.map_comp comp_def)
  then show ?thesis
    by (simp add: accepted_call [OF a] accepted_send [OF a] handleSubmit_def echo_user_def)
qed

text \<open>
  C5, amended, at a concrete input: \<^verbatim>\<open>"hello"\<close> sent from \<open>ready\<close> at clock 1000, and
  \<^verbatim>\<open>" hello "\<close> typed into the form.
\<close>

theorem user_turn_echoed_before_exchange_witness:
  "\<not> isLoading ready \<and> chatSessionRef ready \<noteq> None \<and>
   messages (echo_user (js ''hello'') 1000 ready) =
     [greeting, \<lparr>id_msg = js ''user-1000'', role = USER, content = js ''hello''\<rparr>] \<and>
   isLoading (echo_user (js ''hello'') 1000 ready) \<and>
   map_option sendMessage_calls (chatSessionRef (echo_user (js ''hello'') 1000 ready)) = Some [] \<and>
   handleSubmit (isLoading ready) (js '' hello '') 1000 ready =
     ([], issue_exchange (js ''hello'') (echo_user (js ''hello'') 1000 ready))"
proof -
  have t: "trim (js '' hello '') = js ''hello''"
    by (simp add: trim_def js_def isWhiteSpace_def)
  have ne: "js ''hello'' \<noteq> []"
    by (simp add: js_def)
  from user_turn_echoed_before_exchange
         [OF ready_accepts, of "js ''hello''" 1000 _ _ "js '' hello ''"] ready_accepts
  show ?thesis
    by (simp add: t ne numberToString_1000 ready_state) (simp add: js_def)
qed

text \<open>
  C5 as stated fails on \<open>handleSendMessage\<close> itself: called in the state \<open>ready\<close> with
  the text \<^verbatim>\<open>" hi"\<close>, it appends a USER message with the text \<^verbatim>\<open>" hi"\<close>, which is
  not the trimmed text \<^verbatim>\<open>"hi"\<close>.
\<close>

theorem send_does_not_trim:
  "map_option (\<lambda>st. map content (messages st)) (handleSendMessage_call (isLoading ready) (js '' hi'') 1000 ready)
     = Some [content greeting, js '' hi''] \<and>
   trim (js '' hi'') = js ''hi'' \<and> js '' hi'' \<noteq> js ''hi''"
proof -
  have "trim (js '' hi'') = js ''hi''"
    by (simp add: trim_def js_def isWhiteSpace_def)
  then show ?thesis
    unfolding accepted_call [OF ready_accepts]
    by (simp add: messages_awaiting ready_state) (simp add: js_def)
qed

text \<open>
  C6. When the exchange of an accepted call resolves with the empty string, the call
  ends as a failed one: after the USER message it appends one MODEL message, whose
  text is the apology followed by the text of the empty-response error and so is not
  empty; the banner error is set, and the busy flag is cleared.
\<close>

theorem empty_response_is_failure:
  "\<not> captured \<Longrightarrow> chatSessionRef st \<noteq> None \<Longrightarrow>
   messages (handleSendMessage captured userInput t1 (Resolves []) t2 st) =
     messages st @
       [\<lparr>id_msg = js ''user-'' @ numberToString t1, role = USER, content = userInput\<rparr>,
        \<lparr>id_msg = js ''error-'' @ numberToString t2, role = MODEL,
          content = apology @ [0x0A, 0x0A] @
            js ''*Error: Received an empty response from the API.*''\<rparr>] \<and>
   apology @ [0x0A, 0x0A] @ js ''*Error: Received an empty response from the API.*'' \<noteq> [] \<and>
   error (handleSendMessage captured userInput t1 (Resolves []) t2 st) =
     Some (js ''API Error: Received an empty response from the API.'') \<and>
   \<not> isLoading (handleSendMessage captured userInput t1 (Resolves []) t2 st)"
proof -
  assume a: "\<not> captured" "chatSessionRef st \<noteq> None"
  have t: "try_exchange (Resolves []) =
      Inl (ErrorInstance (js ''Received an empty response from the API.''))"
    by (simp add: try_exchange_def)
  show ?thesis
    unfolding accepted_send [OF a] resume_failure [OF t]
    by (simp add: messages_awaiting send_errorMessage_def error_content_def js_def apology_def)
qed

text \<open>C6, at a concrete input: \<^verbatim>\<open>"hello"\<close> sent from \<open>ready\<close>, empty reply.\<close>

theorem empty_response_is_failure_witness:
  "\<not> isLoading ready \<and> chatSessionRef ready \<noteq> None \<and>
   messages (handleSendMessage (isLoading ready) (js ''hello'') 1000 (Resolves (js '''')) 1001 ready) =
     [greeting,
      \<lparr>id_msg = js ''user-1000'', role = USER, content = js ''hello''\<rparr>,
      \<lparr>id_msg = js ''error-1001'', role = MODEL,
        content = js ''Sorry, I ran into a problem. Please try again.'' @ [0x0A, 0x0A] @
          js ''*Error: Received an empty response from the API.*''\<rparr>]"
proof -
  have e: "js '''' = []" by (simp add: js_def)
  from empty_response_is_failure [OF ready_accepts, of "js ''hello''" 1000 1001] ready_accepts
  show ?thesis
    by (simp add: e numberToString_1000 numberToString_1001 ready_state apology_def)
       (simp add: js_def)
qed

text \<open>
  Beside C6: only the empty string is refused. A reply of white space alone passes
  the check of line 104 and is trimmed afterwards, so the MODEL message that is
  appended has an empty text.
\<close>

lemma blank_response_is_kept:
  "map content (messages (handleSendMessage (isLoading ready) (js ''hello'') 1000 (Resolves (js ''  '')) 1001 ready))
     = [content greeting, js ''hello'', []]"
proof -
  have t: "try_exchange (Resolves (js ''  '')) = Inr (js ''  '')"
    by (simp add: try_exchange_def js_def)
  have "trim (js ''  '') = []"
    by (simp add: trim_def js_def isWhiteSpace_def)
  then show ?thesis
    unfolding accepted_send [OF ready_accepts] resume_success [OF t]
    by (simp add: messages_awaiting ready_state)
qed

text \<open>
  C7, amended. When the exchange of an accepted call fails (the \<^verbatim>\<open>try\<close> block throws
  \<open>e\<close>: a rejection, or the error made for an empty response), the call appends, right
  after the USER message, one MODEL message whose text contains the apology and the
  error text \<open>send_errorMessage e\<close>; the banner error is set to \<^verbatim>\<open>"API Error: "\<close>
  followed by that text, and the busy flag is cleared. The error text is the message
  of \<open>e\<close> when \<open>e\<close> is an \<^verbatim>\<open>Error\<close> instance, and the fixed text
  \<^verbatim>\<open>"An unknown error occurred."\<close> for every other thrown value, whose own text is
  not shown.
\<close>

theorem failed_exchange_turn:
  "\<not> captured \<Longrightarrow> chatSessionRef st \<noteq> None \<Longrightarrow> try_exchange out = Inl e \<Longrightarrow>
   messages (handleSendMessage captured userInput t1 out t2 st) =
     messages st @
       [\<lparr>id_msg = js ''user-'' @ numberToString t1, role = USER, content = userInput\<rparr>,
        \<lparr>id_msg = js ''error-'' @ numberToString t2, role = MODEL,
          content = error_content (send_errorMessage e)\<rparr>] \<and>
   sublist apology (error_content (send_errorMessage e)) \<and>
   sublist (send_errorMessage e) (error_content (send_errorMessage e)) \<and>
   send_errorMessage e =
     (case e of ErrorInstance message \<Rightarrow> message | _ \<Rightarrow> js ''An unknown error occurred.'') \<and>
   error (handleSendMessage captured userInput t1 out t2 st) =
     Some (js ''API Error: '' @ send_errorMessage e) \<and>
   \<not> isLoading (handleSendMessage captured userInput t1 out t2 st)"
proof -
  assume a: "\<not> captured" "chatSessionRef st \<noteq> None" and t: "try_exchange out = Inl e"
  have s1: "sublist apology (error_content (send_errorMessage e))"
    unfolding error_content_def by (rule sublist_append_rightI)
  have "sublist (send_errorMessage e)
      ((apology @ [0x0A, 0x0A] @ js ''*Error: '') @ send_errorMessage e @ js ''*'')"
    by (rule sublist_appendI)
  then have s2: "sublist (send_errorMessage e) (error_content (send_errorMessage e))"
    by (simp add: error_content_def)
  show ?thesis
    unfolding accepted_send [OF a] resume_failure [OF t]
    using s1 s2 by (simp add: messages_awaiting send_errorMessage_def)
qed

text \<open>
  C7, amended, at a concrete input: \<^verbatim>\<open>"trigger failure"\<close> sent from \<open>ready\<close>, the
  exchange rejecting with an \<^verbatim>\<open>Error\<close> whose message is \<^verbatim>\<open>"timeout"\<close>.
\<close>

theorem failed_exchange_turn_witness:
  "\<not> isLoading ready \<and> chatSessionRef ready \<noteq> None \<and>
   try_exchange (Rejects (ErrorInstance (js ''timeout''))) = Inl (ErrorInstance (js ''timeout'')) \<and>
   messages (handleSendMessage (isLoading ready) (js ''trigger failure'') 1000
       (Rejects (ErrorInstance (js ''timeout''))) 1001 ready) =
     [greeting,
      \<lparr>id_msg = js ''user-1000'', role = USER, content = js ''trigger failure''\<rparr>,
      \<lparr>id_msg = js ''error-1001'', role = MODEL,
        content = js ''Sorry, I ran into a problem. Please try again.'' @ [0x0A, 0x0A] @
          js ''*Error: timeout*''\<rparr>] \<and>
   sublist (js ''Sorry, I ran into a problem. Please try again.'')
     (js ''Sorry, I ran into a problem. Please try again.'' @ [0x0A, 0x0A] @
      js ''*Error: timeout*'') \<and>
   sublist (js ''timeout'')
     (js ''Sorry, I ran into a problem. Please try again.'' @ [0x0A, 0x0A] @
      js ''*Error: timeout*'') \<and>
   error (handleSendMessage (isLoading ready) (js ''trigger failure'') 1000
       (Rejects (ErrorInstance (js ''timeout''))) 1001 ready) = Some (js ''API Error: timeout'')"
proof -
  have t: "try_exchange (Rejects (ErrorInstance (js ''timeout''))) =
      Inl (ErrorInstance (js ''timeout''))"
    by (simp add: try_exchange_def)
  have c: "error_content (js ''timeout'') =
      js ''Sorry, I ran into a problem. Please try again.'' @ [0x0A, 0x0A] @
      js ''*Error: timeout*''"
    by (simp add: error_content_def apology_def js_def)
  from failed_exchange_turn [OF ready_accepts t, of "js ''trigger failure''" 1000 1001]
    ready_accepts t
  show ?thesis
    by (simp add: numberToString_1000 numberToString_1001 ready_state send_errorMessage_def c
          apology_def)
       (simp add: js_def)
qed

text \<open>
  C7 as stated fails when the thrown value is not an \<^verbatim>\<open>Error\<close> instance: with the
  exchange rejecting with the string \<^verbatim>\<open>"timeout"\<close>, the appended text is the apology
  with \<^verbatim>\<open>"An unknown error occurred."\<close>, and \<^verbatim>\<open>"timeout"\<close> occurs nowhere in it.
\<close>

theorem non_error_rejection_hides_text:
  "content (last (messages (handleSendMessage (isLoading ready) (js ''trigger failure'') 1000
       (Rejects (ThrownString (js ''timeout''))) 1001 ready))) =
     js ''Sorry, I ran into a problem. Please try again.'' @ [0x0A, 0x0A] @
     js ''*Error: An unknown error occurred.*'' \<and>
   \<not> sublist (js ''timeout'')
     (js ''Sorry, I ran into a problem. Please try again.'' @ [0x0A, 0x0A] @
      js ''*Error: An unknown error occurred.*'')"
proof -
  have t: "try_exchange (Rejects (ThrownString (js ''timeout''))) =
      Inl (ThrownString (js ''timeout''))"
    by (simp add: try_exchange_def)
  have "\<not> sublist (js ''timeout'')
     (js ''Sorry, I ran into a problem. Please try again.'' @ [0x0A, 0x0A] @
      js ''*Error: An unknown error occurred.*'')"
    by code_simp
  then show ?thesis
    unfolding accepted_send [OF ready_accepts] resume_failure [OF t]
    by (simp add: send_errorMessage_def error_content_def apology_def js_def)
qed






text \<open>
  C10. An accepted call of \<open>handleSendMessage\<close> clears the banner error in lines 93 to
  97, before \<^verbatim>\<open>sendMessage\<close> is called (the session is still untouched), and the
  banner is clear while the call awaits its reply. The end of the exchange plays no
  part in this: it is not known yet.
\<close>

theorem accepted_send_clears_banner:
  "\<not> captured \<Longrightarrow> chatSessionRef st \<noteq> None \<Longrightarrow>
   handleSendMessage_call captured userInput now st =
     Some (issue_exchange userInput (echo_user userInput now st)) \<and>
   error (echo_user userInput now st) = None \<and>
   chatSessionRef (echo_user userInput now st) = chatSessionRef st \<and>
   error (issue_exchange userInput (echo_user userInput now st)) = None"
  by (simp add: handleSendMessage_call_def echo_user_def issue_exchange_def)

text \<open>
  C10, at a concrete input: a first call from \<open>ready\<close> fails and leaves the banner
  \<^verbatim>\<open>"API Error: timeout"\<close>; the next call, at clock 1002, clears it.
\<close>

theorem accepted_send_clears_banner_witness:
  "error (handleSendMessage (isLoading ready) (js ''a'') 1000 (Rejects (ErrorInstance (js ''timeout''))) 1001 ready)
     = Some (js ''API Error: timeout'') \<and>
   \<not> isLoading
       (handleSendMessage (isLoading ready) (js ''a'') 1000 (Rejects (ErrorInstance (js ''timeout''))) 1001 ready) \<and>
   chatSessionRef
       (handleSendMessage (isLoading ready) (js ''a'') 1000 (Rejects (ErrorInstance (js ''timeout''))) 1001 ready)
     \<noteq> None \<and>
   error (issue_exchange (js ''b'') (echo_user (js ''b'') 1002
     (handleSendMessage (isLoading ready) (js ''a'') 1000 (Rejects (ErrorInstance (js ''timeout''))) 1001 ready)))
     = None"
proof -
  let ?st = "handleSendMessage (isLoading ready) (js ''a'') 1000 (Rejects (ErrorInstance (js ''timeout''))) 1001 ready"
  have t: "try_exchange (Rejects (ErrorInstance (js ''timeout''))) =
      Inl (ErrorInstance (js ''timeout''))"
    by (simp add: try_exchange_def)
  have st: "\<not> isLoading ?st" "chatSessionRef ?st \<noteq> None"
      "error ?st = Some (js ''API Error: timeout'')"
    unfolding accepted_send [OF ready_accepts] resume_failure [OF t]
    by (simp_all add: issue_exchange_def echo_user_def ready_state send_errorMessage_def js_def)
  from accepted_send_clears_banner [OF st(1,2), of "js ''b''" 1002] st show ?thesis
    by simp
qed

end
